theory Spec2Isabelle
  imports Complex_Main "HOL-Library.Sublist"
begin

section \<open>The upload/enhance controller of the image enhancer page\<close>

text \<open>
  The class \<^verbatim>\<open>ImageEnhancer\<close> of \<^verbatim>\<open>frontend/script.js\<close> is embedded as a set of
  handlers over one record of state. The record holds the instance fields of the
  controller, the part of the document the handlers read and write, and the browser's
  store of object URLs. Every handler is a function from the state to the new state and
  the list of requests it makes of the browser (a network request, a confirmation
  prompt, a file read, an image decode, a synthetic anchor click, an uncaught error).

  JavaScript runs the handlers one at a time; \<^verbatim>\<open>await\<close> and the callbacks of
  \<^verbatim>\<open>FileReader\<close> and \<^verbatim>\<open>Image\<close> are suspension points, so the part of a method
  before such a point and the part after it are two handlers, and the second takes what
  its closure captured as arguments.

  Conventions. A JavaScript string is the list of its UTF-8 bytes. The value of a slider
  is the decimal number its string denotes, the value of the super-resolution selector is
  the integer \<^verbatim>\<open>parseInt\<close> reads from it. Markup assigned to \<^verbatim>\<open>innerHTML\<close> is kept as
  the tuple of values interpolated into the template; \<^verbatim>\<open>formatFileSize\<close> (floating
  point) is kept as its argument. Timers (\<^verbatim>\<open>setTimeout\<close>), console output, the health
  probe, touch gestures and purely cosmetic style assignments are left out: none of them
  writes a field modelled here.
\<close>

subsection \<open>Strings and numbers\<close>

definition cross_mark :: string where
  \<comment> \<open>U+274C\<close>
  "cross_mark = [CHR 0xE2, CHR 0x9D, CHR 0x8C]"

definition check_mark :: string where
  \<comment> \<open>U+2705\<close>
  "check_mark = [CHR 0xE2, CHR 0x9C, CHR 0x85]"

definition warning_sign :: string where
  \<comment> \<open>U+26A0 U+FE0F\<close>
  "warning_sign = [CHR 0xE2, CHR 0x9A, CHR 0xA0, CHR 0xEF, CHR 0xB8, CHR 0x8F]"

definition inbox_tray :: string where
  \<comment> \<open>U+1F4E5\<close>
  "inbox_tray = [CHR 0xF0, CHR 0x9F, CHR 0x93, CHR 0xA5]"

definition dquote :: string where
  "dquote = [CHR 0x22]"

fun digit_char :: "nat \<Rightarrow> char" where
  "digit_char d = ''0123456789'' ! d"

text \<open>A non-negative integer interpolated into a template literal: its decimal digits.\<close>

fun string_of_nat :: "nat \<Rightarrow> string" where
  "string_of_nat n =
     (if n < 10 then [digit_char n]
      else string_of_nat (n div 10) @ [digit_char (n mod 10)])"

declare string_of_nat.simps [simp del]

text \<open>
  \<^verbatim>\<open>file.type.match('image.*')\<close>: a string argument of \<^verbatim>\<open>match\<close> is compiled to the
  regular expression \<^verbatim>\<open>/image.*/\<close>, which is not anchored. It matches when the literal
  \<^verbatim>\<open>image\<close> occurs at some position (\<^verbatim>\<open>.*\<close> then matches the rest of the line,
  possibly nothing).
\<close>

fun match_image :: "string \<Rightarrow> bool" where
  "match_image [] = False"
| "match_image (c # cs) = (prefix ''image'' (c # cs) \<or> match_image cs)"

text \<open>\<^verbatim>\<open>s.split('/')\<close>: the pieces of \<open>s\<close> between the slashes.\<close>

fun split_slash :: "string \<Rightarrow> string list" where
  "split_slash [] = [[]]"
| "split_slash (c # cs) =
     (if c = CHR ''/'' then [] # split_slash cs
      else (case split_slash cs of
              [] \<Rightarrow> [[c]]
            | p # ps \<Rightarrow> (c # p) # ps))"

definition toUpperCase_char :: "char \<Rightarrow> char" where
  \<comment> \<open>on ASCII letters\<close>
  "toUpperCase_char c =
     (let n = (of_char c :: nat) in if 97 \<le> n \<and> n \<le> 122 then char_of (n - 32) else c)"

definition toUpperCase :: "string \<Rightarrow> string" where
  "toUpperCase s = map toUpperCase_char s"

text \<open>
  \<^verbatim>\<open>file.type.split('/')[1].toUpperCase()\<close>. Where the type has no slash the index
  yields \<^verbatim>\<open>undefined\<close> and the method call throws a TypeError: \<open>None\<close>.
\<close>

definition type_label :: "string \<Rightarrow> string option" where
  "type_label t =
     (case split_slash t of
        _ # p # _ \<Rightarrow> Some (toUpperCase p)
      | _ \<Rightarrow> None)"

text \<open>\<^verbatim>\<open>s.lastIndexOf('.')\<close>, \<open>-1\<close> where there is no dot.\<close>

fun lastIndexOf_from :: "char \<Rightarrow> string \<Rightarrow> int \<Rightarrow> int \<Rightarrow> int" where
  "lastIndexOf_from c [] i found = found"
| "lastIndexOf_from c (x # xs) i found =
     lastIndexOf_from c xs (i + 1) (if x = c then i else found)"

definition lastIndexOf :: "string \<Rightarrow> char \<Rightarrow> int" where
  "lastIndexOf s c = lastIndexOf_from c s 0 (-1)"

text \<open>\<^verbatim>\<open>s.substring(0, e)\<close>: a negative end counts as 0, one past the end as the length.\<close>

definition substring0 :: "string \<Rightarrow> int \<Rightarrow> string" where
  "substring0 s e = take (nat (max 0 e)) s"

text \<open>\<^verbatim>\<open>iso.slice(0, 19).replace(/[:]/g, '-')\<close> on the ISO rendering of the clock.\<close>

definition timestamp_of :: "string \<Rightarrow> string" where
  "timestamp_of isoString =
     map (\<lambda>c. if c = CHR '':'' then CHR ''-'' else c) (take 19 isoString)"

subsection \<open>Data\<close>

record js_file =
  fname :: string
  ftype :: string
  fsize :: nat

datatype src = SrcEmpty | SrcNull | SrcData string | SrcObjectURL nat

record img_el =
  img_src :: src
  img_display :: string
  img_transform :: string

datatype url_target = OfFile js_file | OfBlob string

datatype stats_content =
    StatsMarkup
  | OriginalStats nat nat nat nat nat string
  | DimensionsUnavailable
  | EnhancedStats nat nat nat

record stats_el =
  stats_html :: stats_content
  stats_display :: string

datatype file_info = NoFileInfo | FileInfo string nat string

record status_el =
  status_text :: string
  status_class :: string
  status_display :: string

datatype param_value = PNum rat | PBool bool | PInt nat

record request =
  req_method :: string
  req_url :: string
  req_params :: "(string \<times> param_value) list"
  req_file :: js_file

datatype effect =
    Confirm string
  | Fetch request
  | ReadAsDataURL js_file
  | DecodeImage src
  | AnchorClick nat string
  | UncaughtTypeError

text \<open>
  How a \<^verbatim>\<open>fetch\<close> settles: the promise rejects (with the error's message), or a
  response arrives with a status and a body, or a response arrives and reading its body
  rejects.
\<close>

datatype fetch_outcome =
    Rejected string
  | Response nat string
  | BodyFailed nat string

definition response_ok :: "nat \<Rightarrow> bool" where
  \<comment> \<open>\<^verbatim>\<open>response.ok\<close>: the status is in the range 200 to 299\<close>
  "response_ok status = (200 \<le> status \<and> status \<le> 299)"

datatype preview = OriginalPreview | EnhancedPreview

record state =
  \<comment> \<open>instance fields\<close>
  originalImage :: "string option"
  enhancedImage :: "string option"
  currentImageFile :: "js_file option"
  enhancedImageUrl :: "nat option"
  isMobile :: bool
  \<comment> \<open>the browser's object URLs that are created and not revoked, and the next fresh one\<close>
  objectURLs :: "(nat \<times> url_target) list"
  nextURL :: nat
  \<comment> \<open>the document\<close>
  imageInput_value :: string
  enhanceBtn_disabled :: bool
  downloadBtn_disabled :: bool
  sharpnessSlider :: rat
  contrastSlider :: rat
  brightnessSlider :: rat
  colorSlider :: rat
  sharpnessValue :: rat
  contrastValue :: rat
  brightnessValue :: rat
  colorValue :: rat
  denoiseCheckbox :: bool
  superResSelect :: nat
  autoEnhanceCheckbox :: bool
  formatSelect :: string
  statusText :: status_el
  loadingMessage :: string
  loadingModal_display :: string
  errorMessage :: string
  errorModal_display :: string
  mobileProcessingIndicator :: "(string \<times> string) option"
  originalImg :: "img_el option"
  enhancedImg :: "img_el option"
  originalPlaceholder_display :: "string option"
  enhancedPlaceholder_display :: "string option"
  originalStats :: stats_el
  enhancedStats :: stats_el
  fileInfo :: file_info

definition backendUrl :: string where
  "backendUrl = ''https://your-pythonanywhere-backend.com''"

subsection \<open>The browser's object URLs\<close>

definition createObjectURL :: "url_target \<Rightarrow> state \<Rightarrow> nat \<times> state" where
  "createObjectURL t s =
     (nextURL s, s\<lparr>objectURLs := objectURLs s @ [(nextURL s, t)], nextURL := nextURL s + 1\<rparr>)"

definition revokeObjectURL :: "nat \<Rightarrow> state \<Rightarrow> state" where
  "revokeObjectURL u s = s\<lparr>objectURLs := filter (\<lambda>(k, t). k \<noteq> u) (objectURLs s)\<rparr>"

subsection \<open>Small handlers\<close>

definition showStatus :: "string \<Rightarrow> string \<Rightarrow> state \<Rightarrow> state" where
  "showStatus message type s =
     s\<lparr>statusText := \<lparr>status_text = message, status_class = ''status '' @ type,
                       status_display = ''block''\<rparr>\<rparr>"

definition showLoading :: "bool \<Rightarrow> state \<Rightarrow> state" where
  "showLoading show s = s\<lparr>loadingModal_display := (if show then ''flex'' else ''none'')\<rparr>"

datatype modal = ErrorModal | LoadingModal

definition showModal :: "modal \<Rightarrow> state \<Rightarrow> state" where
  "showModal m s =
     (case m of
        ErrorModal \<Rightarrow> s\<lparr>errorModal_display := ''flex''\<rparr>
      | LoadingModal \<Rightarrow> s\<lparr>loadingModal_display := ''flex''\<rparr>)"

definition hideModal :: "modal \<Rightarrow> state \<Rightarrow> state" where
  "hideModal m s =
     (case m of
        ErrorModal \<Rightarrow> s\<lparr>errorModal_display := ''none''\<rparr>
      | LoadingModal \<Rightarrow> s\<lparr>loadingModal_display := ''none''\<rparr>)"

definition showErrorModal :: "string \<Rightarrow> state \<Rightarrow> state" where
  "showErrorModal message s = showModal ErrorModal (s\<lparr>errorMessage := message\<rparr>)"

definition showMobileProcessing :: "bool \<Rightarrow> string \<Rightarrow> state \<Rightarrow> state" where
  "showMobileProcessing show message s =
     (let d = (if show then ''flex'' else ''none'');
          indicator = (case mobileProcessingIndicator s of
                         None \<Rightarrow> (d, message)
                       | Some i \<Rightarrow> i)
      in s\<lparr>mobileProcessingIndicator :=
             Some (d, if show then message else snd indicator)\<rparr>)"

definition updateSliders :: "state \<Rightarrow> state" where
  "updateSliders s =
     s\<lparr>sharpnessValue := sharpnessSlider s, contrastValue := contrastSlider s,
       brightnessValue := brightnessSlider s, colorValue := colorSlider s\<rparr>"

definition shown_img :: "src \<Rightarrow> img_el option \<Rightarrow> img_el" where
  "shown_img url el =
     (case el of
        None \<Rightarrow> \<lparr>img_src = url, img_display = ''block'', img_transform = ''''\<rparr>
      | Some i \<Rightarrow> i\<lparr>img_src := url, img_display := ''block''\<rparr>)"

definition displayImage :: "preview \<Rightarrow> src \<Rightarrow> state \<Rightarrow> state" where
  "displayImage p imageUrl s =
     (case p of
        OriginalPreview \<Rightarrow>
          s\<lparr>originalImg := Some (shown_img imageUrl (originalImg s)),
            originalPlaceholder_display :=
              map_option (\<lambda>_. ''none'') (originalPlaceholder_display s)\<rparr>
      | EnhancedPreview \<Rightarrow>
          s\<lparr>enhancedImg := Some (shown_img imageUrl (enhancedImg s)),
            enhancedPlaceholder_display :=
              map_option (\<lambda>_. ''none'') (enhancedPlaceholder_display s)\<rparr>)"

definition resetImagePreview :: "preview \<Rightarrow> state \<Rightarrow> state" where
  "resetImagePreview p s =
     (let hide = map_option
            (\<lambda>i. i\<lparr>img_display := ''none'', img_src := SrcEmpty, img_transform := ''scale(1)''\<rparr>);
          block = map_option (\<lambda>_. ''block'')
      in case p of
           OriginalPreview \<Rightarrow>
             s\<lparr>originalImg := hide (originalImg s),
               originalPlaceholder_display := block (originalPlaceholder_display s)\<rparr>
         | EnhancedPreview \<Rightarrow>
             s\<lparr>enhancedImg := hide (enhancedImg s),
               enhancedPlaceholder_display := block (enhancedPlaceholder_display s)\<rparr>)"

definition resetEnhancedPreview :: "state \<Rightarrow> state" where
  "resetEnhancedPreview s =
     (let s1 = s\<lparr>enhancedImg :=
                   map_option (\<lambda>i. i\<lparr>img_display := ''none'', img_src := SrcEmpty\<rparr>)
                     (enhancedImg s),
                 enhancedPlaceholder_display :=
                   map_option (\<lambda>_. ''block'') (enhancedPlaceholder_display s),
                 enhancedStats := (enhancedStats s)\<lparr>stats_display := ''none''\<rparr>\<rparr>
      in case enhancedImageUrl s1 of
           None \<Rightarrow> s1
         | Some u \<Rightarrow> (revokeObjectURL u s1)\<lparr>enhancedImageUrl := None\<rparr>)"

subsection \<open>Accepting a file\<close>

definition maxSize :: "state \<Rightarrow> nat" where
  "maxSize s = (if isMobile s then 5 * 1024 * 1024 else 10 * 1024 * 1024)"

definition maxMB :: "state \<Rightarrow> string" where
  "maxMB s = (if isMobile s then ''5MB'' else ''10MB'')"

text \<open>
  \<^verbatim>\<open>handleImageFile(file)\<close> up to the start of the read. The argument is \<open>None\<close> for
  a missing file.
\<close>

definition handleImageFile :: "js_file option \<Rightarrow> state \<Rightarrow> state \<times> effect list" where
  "handleImageFile file s =
     (case file of
        None \<Rightarrow> (showStatus ''No file provided'' ''error'' s, [])
      | Some f \<Rightarrow>
          if \<not> match_image (ftype f) then
            (showStatus ''Please select an image file (JPG, PNG, etc.)'' ''error'' s, [])
          else if fsize f > maxSize s then
            (showStatus (''File too large! Please select image under '' @ maxMB s @ ''.'')
               ''error'' s, [])
          else (s\<lparr>currentImageFile := Some f\<rparr>, [ReadAsDataURL f]))"

text \<open>The two entry points: the change event of the file input and a drop.\<close>

definition handleFileInputChange :: "js_file list \<Rightarrow> state \<Rightarrow> state \<times> effect list" where
  "handleFileInputChange files s =
     (case files of
        f # _ \<Rightarrow> handleImageFile (Some f) s
      | [] \<Rightarrow> (showStatus ''No file selected'' ''error'' s, []))"

definition dropArea_drop :: "js_file list \<Rightarrow> state \<Rightarrow> state \<times> effect list" where
  "dropArea_drop files s =
     (case files of
        f # _ \<Rightarrow> handleImageFile (Some f) s
      | [] \<Rightarrow> (s, []))"

text \<open>
  \<^verbatim>\<open>updateImageStats('originalStats', file)\<close>: an object URL is created for the file
  and given to a fresh image to decode. Nothing revokes this URL.
\<close>

definition updateImageStats :: "js_file \<Rightarrow> state \<Rightarrow> state \<times> effect list" where
  "updateImageStats f s =
     (let (u, s1) = createObjectURL (OfFile f) s in (s1, [DecodeImage (SrcObjectURL u)]))"

text \<open>Its two callbacks, for a decoded image of the given width and height.\<close>

definition updateImageStats_onload ::
    "js_file \<Rightarrow> nat \<Rightarrow> nat \<Rightarrow> state \<Rightarrow> state \<times> effect list" where
  "updateImageStats_onload f width height s =
     (let scaleFactor = superResSelect s;
          newWidth = width * scaleFactor;
          newHeight = height * scaleFactor
      in case type_label (ftype f) of
           None \<Rightarrow> (s, [UncaughtTypeError])
         | Some label \<Rightarrow>
             (s\<lparr>originalStats :=
                  \<lparr>stats_html = OriginalStats width height newWidth newHeight (fsize f) label,
                   stats_display = ''block''\<rparr>\<rparr>, []))"

definition updateImageStats_onerror :: "state \<Rightarrow> state" where
  "updateImageStats_onerror s =
     s\<lparr>originalStats := \<lparr>stats_html = DimensionsUnavailable, stats_display = ''block''\<rparr>\<rparr>"

text \<open>The callbacks of the reader that \<^verbatim>\<open>handleImageFile\<close> started on \<open>f\<close>.\<close>

definition reader_onloadstart :: "state \<Rightarrow> state" where
  "reader_onloadstart s = showStatus ''Loading image...'' ''loading'' s"

definition reader_onload :: "js_file \<Rightarrow> string \<Rightarrow> state \<Rightarrow> state \<times> effect list" where
  "reader_onload f result s =
     (let s1 = s\<lparr>originalImage := Some result\<rparr>;
          s2 = displayImage OriginalPreview (SrcData result) s1;
          (s3, effs) = updateImageStats f s2;
          s4 = resetEnhancedPreview s3;
          s5 = s4\<lparr>enhanceBtn_disabled := False, downloadBtn_disabled := True\<rparr>
      in case type_label (ftype f) of
           None \<Rightarrow> (s5, effs @ [UncaughtTypeError])
         | Some label \<Rightarrow>
             (showStatus
                (check_mark @ '' Image loaded! Adjust settings and click '' @ dquote
                   @ ''Enhance Image'' @ dquote)
                ''success'' (s5\<lparr>fileInfo := FileInfo (fname f) (fsize f) label\<rparr>), effs))"

definition reader_onerror :: "state \<Rightarrow> state" where
  "reader_onerror s = showStatus (cross_mark @ '' Failed to load image'') ''error'' s"

definition reader_onabort :: "state \<Rightarrow> state" where
  "reader_onabort s = showStatus (cross_mark @ '' Image loading cancelled'') ''error'' s"

subsection \<open>Enhancing\<close>

definition enhance_params :: "nat \<Rightarrow> state \<Rightarrow> (string \<times> param_value) list" where
  "enhance_params superResValue s =
     [(''sharpness'', PNum (sharpnessSlider s)),
      (''contrast'', PNum (contrastSlider s)),
      (''brightness'', PNum (brightnessSlider s)),
      (''color'', PNum (colorSlider s)),
      (''denoise'', PBool (denoiseCheckbox s)),
      (''super_resolution'', PInt superResValue)]"

definition confirm_message :: "nat \<Rightarrow> string" where
  "confirm_message superResValue =
     warning_sign @ '' '' @ string_of_nat superResValue
       @ ''x upscaling may be slow on mobile. Continue?''"

definition loading_message :: "nat \<Rightarrow> string" where
  "loading_message superResValue =
     (if superResValue = 4 then ''Applying 4x super resolution... This may take longer.''
      else if superResValue = 8 then ''Applying 8x super resolution... Please be patient.''
      else ''Enhancing image... Please wait.'')"

text \<open>
  \<^verbatim>\<open>enhanceImage()\<close> up to \<^verbatim>\<open>await fetch(...)\<close>. The argument \<open>answer\<close> is what
  \<^verbatim>\<open>confirm\<close> returns if it is called.
\<close>

definition enhanceImage :: "bool \<Rightarrow> state \<Rightarrow> state \<times> effect list" where
  "enhanceImage answer s =
     (case currentImageFile s of
        None \<Rightarrow> (showStatus ''Please select an image first'' ''error'' s, [])
      | Some f \<Rightarrow>
          let superResValue = superResSelect s;
              prompt = (if isMobile s \<and> superResValue \<ge> 4
                        then [Confirm (confirm_message superResValue)] else [])
          in if prompt \<noteq> [] \<and> \<not> answer then (s, prompt)
             else
               let loadingMessage = loading_message superResValue;
                   s1 = (if isMobile s then showMobileProcessing True loadingMessage s else s);
                   s2 = s1\<lparr>loadingMessage := loadingMessage\<rparr>;
                   s3 = showLoading True s2;
                   s4 = showStatus loadingMessage ''loading'' s3
               in (s4, prompt @
                     [Fetch \<lparr>req_method = ''POST'',
                             req_url = backendUrl @ ''/enhance-advanced'',
                             req_params = enhance_params superResValue s4,
                             req_file = f\<rparr>]))"

definition finally_block :: "state \<Rightarrow> state" where
  "finally_block s =
     (let s1 = showLoading False s
      in if isMobile s1 then showMobileProcessing False ''Processing...'' s1 else s1)"

definition success_message :: "nat \<Rightarrow> string" where
  "success_message superResValue =
     (if superResValue > 1
      then check_mark @ '' Image enhanced with '' @ string_of_nat superResValue
             @ ''x super resolution! Click Download to save.''
      else check_mark @ '' Image enhanced successfully! Click Download to save.'')"

text \<open>
  The rest of \<^verbatim>\<open>enhanceImage()\<close>, run when the request settles. Its closure holds
  \<^verbatim>\<open>superResValue\<close>; everything else is read from the state as it is then.
\<close>

definition enhanceImage_resume ::
    "nat \<Rightarrow> fetch_outcome \<Rightarrow> state \<Rightarrow> state \<times> effect list" where
  "enhanceImage_resume superResValue outcome s =
     (let failed = (\<lambda>message.
            (finally_block (showErrorModal (''Enhancement failed: '' @ message) s), []))
      in case outcome of
           Rejected message \<Rightarrow> failed message
         | BodyFailed status message \<Rightarrow> failed message
         | Response status body \<Rightarrow>
             if \<not> response_ok status then
               failed (''Server error: '' @ string_of_nat status @ '' - '' @ body)
             else
               let s1 = (case enhancedImageUrl s of
                           None \<Rightarrow> s
                         | Some old \<Rightarrow> revokeObjectURL old s);
                   (u, s2) = createObjectURL (OfBlob body) s1;
                   s3 = s2\<lparr>enhancedImageUrl := Some u\<rparr>;
                   s4 = displayImage EnhancedPreview (SrcObjectURL u) s3;
                   decode = DecodeImage (case originalImage s4 of
                                           None \<Rightarrow> SrcNull
                                         | Some d \<Rightarrow> SrcData d);
                   s5 = s4\<lparr>downloadBtn_disabled := False\<rparr>;
                   s6 = showStatus (success_message superResValue) ''success'' s5
               in (finally_block s6, [decode]))"

text \<open>The callback of the image that the success path decodes for the enhanced stats.\<close>

definition enhancedStats_onload :: "nat \<Rightarrow> nat \<Rightarrow> nat \<Rightarrow> state \<Rightarrow> state" where
  "enhancedStats_onload superResValue width height s =
     (let scale = superResValue;
          newWidth = width * scale;
          newHeight = height * scale
      in s\<lparr>enhancedStats :=
             \<lparr>stats_html = EnhancedStats newWidth newHeight scale, stats_display = ''block''\<rparr>\<rparr>)"

subsection \<open>Downloading\<close>

definition download_filename :: "string \<Rightarrow> string \<Rightarrow> nat \<Rightarrow> string" where
  "download_filename originalName isoString superResValue =
     (let nameWithoutExt = substring0 originalName (lastIndexOf originalName CHR ''.'');
          timestamp = timestamp_of isoString;
          scaleSuffix = (if superResValue > 1 then ''_'' @ string_of_nat superResValue @ ''x''
                         else [])
      in ''enhanced'' @ scaleSuffix @ ''_'' @ nameWithoutExt @ ''_'' @ timestamp @ ''.png'')"

text \<open>
  \<^verbatim>\<open>downloadImage()\<close>; \<open>isoString\<close> is what \<^verbatim>\<open>new Date().toISOString()\<close> returns.
  The name of the current file is read with no test of the file: where the file is null
  the read throws.
\<close>

definition downloadImage :: "string \<Rightarrow> state \<Rightarrow> state \<times> effect list" where
  "downloadImage isoString s =
     (case enhancedImageUrl s of
        None \<Rightarrow> (showStatus ''No enhanced image to download'' ''error'' s, [])
      | Some u \<Rightarrow>
          (case currentImageFile s of
             None \<Rightarrow> (s, [UncaughtTypeError])
           | Some f \<Rightarrow>
               let filename = download_filename (fname f) isoString (superResSelect s)
               in (showStatus (inbox_tray @ '' Download started: '' @ filename) ''success'' s,
                   [AnchorClick u filename])))"

subsection \<open>Resetting\<close>

definition resetAll :: "state \<Rightarrow> state" where
  "resetAll s =
     (let s1 = s\<lparr>imageInput_value := []\<rparr>;
          s2 = resetImagePreview EnhancedPreview (resetImagePreview OriginalPreview s1);
          s3 = s2\<lparr>originalStats := (originalStats s2)\<lparr>stats_display := ''none''\<rparr>,
                  enhancedStats := (enhancedStats s2)\<lparr>stats_display := ''none''\<rparr>,
                  fileInfo := NoFileInfo,
                  enhanceBtn_disabled := True,
                  downloadBtn_disabled := True,
                  sharpnessSlider := 2.0,
                  contrastSlider := 1.2,
                  brightnessSlider := 1.1,
                  colorSlider := 1.1,
                  denoiseCheckbox := False,
                  superResSelect := 1,
                  autoEnhanceCheckbox := True,
                  formatSelect := ''png''\<rparr>;
          s4 = updateSliders s3;
          s5 = s4\<lparr>originalImage := None, enhancedImage := None, currentImageFile := None\<rparr>;
          s6 = (case enhancedImageUrl s5 of
                  None \<Rightarrow> s5
                | Some u \<Rightarrow> (revokeObjectURL u s5)\<lparr>enhancedImageUrl := None\<rparr>)
      in showStatus ''Reset complete. Upload a new image to start.'' ''success'' s6)"

subsection \<open>The listeners of the modals and of the controls\<close>

definition closeErrorBtn_click :: "state \<Rightarrow> state" where
  "closeErrorBtn_click s = hideModal ErrorModal s"

definition cancelBtn_click :: "state \<Rightarrow> state" where
  "cancelBtn_click s = showStatus ''Enhancement cancelled'' ''info'' (hideModal LoadingModal s)"

definition retryBtn_click :: "bool \<Rightarrow> state \<Rightarrow> state \<times> effect list" where
  "retryBtn_click answer s =
     (let s1 = hideModal ErrorModal s
      in if currentImageFile s1 \<noteq> None then enhanceImage answer s1 else (s1, []))"

datatype slider = Sharpness | Contrast | Brightness | Color

text \<open>An input event on a slider that the user moved to \<open>v\<close>: the label follows.\<close>

definition slider_input :: "slider \<Rightarrow> rat \<Rightarrow> state \<Rightarrow> state" where
  "slider_input sl v s =
     (case sl of
        Sharpness \<Rightarrow> s\<lparr>sharpnessSlider := v, sharpnessValue := v\<rparr>
      | Contrast \<Rightarrow> s\<lparr>contrastSlider := v, contrastValue := v\<rparr>
      | Brightness \<Rightarrow> s\<lparr>brightnessSlider := v, brightnessValue := v\<rparr>
      | Color \<Rightarrow> s\<lparr>colorSlider := v, colorValue := v\<rparr>)"

definition superResSelect_change :: "nat \<Rightarrow> state \<Rightarrow> state" where
  "superResSelect_change v s =
     showStatus (''Super resolution: '' @ string_of_nat v @ ''x selected'') ''success''
       (s\<lparr>superResSelect := v\<rparr>)"

definition autoEnhanceCheckbox_change :: "bool \<Rightarrow> state \<Rightarrow> state" where
  "autoEnhanceCheckbox_change checked s =
     (let s1 = s\<lparr>autoEnhanceCheckbox := checked\<rparr>
      in if checked \<and> currentImageFile s1 \<noteq> None
         then showStatus ''Auto-enhance enabled. Apply default enhancements.'' ''info'' s1
         else s1)"

subsection \<open>Events\<close>

text \<open>
  Everything that can run a handler: the user's actions and the completions of the
  reads, decodes and requests that earlier handlers started. A completion carries what
  the closure of its callback captured.
\<close>

datatype event =
    FileInputChange "js_file list"
  | Drop "js_file list"
  | ReaderLoadStart
  | ReaderLoad js_file string
  | ReaderError
  | ReaderAbort
  | StatsImageLoad js_file nat nat
  | StatsImageError
  | EnhanceClick bool
  | FetchSettled nat fetch_outcome
  | EnhancedStatsImageLoad nat nat nat
  | DownloadClick string
  | ResetClick
  | CloseErrorClick
  | CancelClick
  | RetryClick bool
  | SliderInput slider rat
  | SuperResChange nat
  | DenoiseChange bool
  | AutoEnhanceChange bool
  | FormatChange string

fun fire :: "event \<Rightarrow> state \<Rightarrow> state \<times> effect list" where
  "fire (FileInputChange files) s = handleFileInputChange files s"
| "fire (Drop files) s = dropArea_drop files s"
| "fire ReaderLoadStart s = (reader_onloadstart s, [])"
| "fire (ReaderLoad f result) s = reader_onload f result s"
| "fire ReaderError s = (reader_onerror s, [])"
| "fire ReaderAbort s = (reader_onabort s, [])"
| "fire (StatsImageLoad f w h) s = updateImageStats_onload f w h s"
| "fire StatsImageError s = (updateImageStats_onerror s, [])"
| "fire (EnhanceClick answer) s = enhanceImage answer s"
| "fire (FetchSettled superResValue outcome) s = enhanceImage_resume superResValue outcome s"
| "fire (EnhancedStatsImageLoad superResValue w h) s =
     (enhancedStats_onload superResValue w h s, [])"
| "fire (DownloadClick isoString) s = downloadImage isoString s"
| "fire ResetClick s = (resetAll s, [])"
| "fire CloseErrorClick s = (closeErrorBtn_click s, [])"
| "fire CancelClick s = (cancelBtn_click s, [])"
| "fire (RetryClick answer) s = retryBtn_click answer s"
| "fire (SliderInput sl v) s = (slider_input sl v s, [])"
| "fire (SuperResChange v) s = (superResSelect_change v s, [])"
| "fire (DenoiseChange b) s = (s\<lparr>denoiseCheckbox := b\<rparr>, [])"
| "fire (AutoEnhanceChange b) s = (autoEnhanceCheckbox_change b s, [])"
| "fire (FormatChange v) s = (s\<lparr>formatSelect := v\<rparr>, [])"

text \<open>A sequence of events, in the order they happen, with everything asked of the browser.\<close>

fun run :: "event list \<Rightarrow> state \<Rightarrow> state \<times> effect list" where
  "run [] s = (s, [])"
| "run (e # es) s =
     (let (s1, effs1) = fire e s; (s2, effs2) = run es s1 in (s2, effs1 @ effs2))"

text \<open>
  Modelled from the spec: the page as it is when the constructor and \<^verbatim>\<open>init()\<close> have
  run. The constructor sets the four fields to null and \<open>isMobile\<close> from the user agent;
  the HTML document is not among the sources, so the controls start with the defaults
  the spec gives (the parameters at their defaults, enhance and download disabled, no
  image shown, both placeholders present).
\<close>

definition page_load :: "bool \<Rightarrow> state" where
  "page_load mobile =
     \<lparr>originalImage = None, enhancedImage = None, currentImageFile = None,
      enhancedImageUrl = None, isMobile = mobile,
      objectURLs = [], nextURL = 0,
      imageInput_value = [],
      enhanceBtn_disabled = True, downloadBtn_disabled = True,
      sharpnessSlider = 2.0, contrastSlider = 1.2, brightnessSlider = 1.1, colorSlider = 1.1,
      sharpnessValue = 2.0, contrastValue = 1.2, brightnessValue = 1.1, colorValue = 1.1,
      denoiseCheckbox = False, superResSelect = 1, autoEnhanceCheckbox = True,
      formatSelect = ''png'',
      statusText = \<lparr>status_text = [], status_class = [], status_display = []\<rparr>,
      loadingMessage = [], loadingModal_display = ''none'',
      errorMessage = [], errorModal_display = ''none'',
      mobileProcessingIndicator = None,
      originalImg = None, enhancedImg = None,
      originalPlaceholder_display = Some ''block'', enhancedPlaceholder_display = Some ''block'',
      originalStats = \<lparr>stats_html = StatsMarkup, stats_display = ''none''\<rparr>,
      enhancedStats = \<lparr>stats_html = StatsMarkup, stats_display = ''none''\<rparr>,
      fileInfo = NoFileInfo\<rparr>"

subsection \<open>Operations run to completion\<close>

text \<open>
  The operations of the controller as the user sees them, each with the way its
  asynchronous step ends, and run with nothing else in between: accepting a file with
  the outcome of the read, enhancing with the answer to the prompt and the way the
  request settles, downloading and resetting. The decodes that fill the statistics are
  not part of them.
\<close>

datatype read_outcome = ReadOk string | ReadFailed | ReadAborted

datatype operation =
    AcceptFile js_file read_outcome
  | Enhance bool fetch_outcome
  | Download string
  | Reset

fun requests :: "effect list \<Rightarrow> request list" where
  "requests [] = []"
| "requests (Fetch r # effs) = r # requests effs"
| "requests (_ # effs) = requests effs"

fun perform :: "operation \<Rightarrow> state \<Rightarrow> state" where
  "perform (AcceptFile f r) s =
     (case handleImageFile (Some f) s of
        (s1, []) \<Rightarrow> s1
      | (s1, _ # _) \<Rightarrow>
          (case r of
             ReadOk result \<Rightarrow> fst (reader_onload f result (reader_onloadstart s1))
           | ReadFailed \<Rightarrow> reader_onerror (reader_onloadstart s1)
           | ReadAborted \<Rightarrow> reader_onabort (reader_onloadstart s1)))"
| "perform (Enhance answer outcome) s =
     (case enhanceImage answer s of
        (s1, effs) \<Rightarrow>
          if requests effs = [] then s1
          else fst (enhanceImage_resume (superResSelect s) outcome s1))"
| "perform (Download isoString) s = fst (downloadImage isoString s)"
| "perform Reset s = resetAll s"

subsection \<open>Properties, files and event sequences used below\<close>




definition url_implies_file :: "state \<Rightarrow> bool" where
  "url_implies_file s = (enhancedImageUrl s \<noteq> None \<longrightarrow> currentImageFile s \<noteq> None)"

definition photo :: js_file where
  "photo = \<lparr>fname = ''cat.jpg'', ftype = ''image/jpeg'', fsize = 2097152\<rparr>"

definition scan :: js_file where
  "scan = \<lparr>fname = ''scan.png'', ftype = ''image/png'', fsize = 4096\<rparr>"

definition big_photo :: js_file where
  "big_photo = \<lparr>fname = ''panorama.jpg'', ftype = ''image/jpeg'', fsize = 8388608\<rparr>"

definition big_text :: js_file where
  "big_text = \<lparr>fname = ''notes.txt'', ftype = ''text/plain'', fsize = 8388608\<rparr>"

definition disk_image :: js_file where
  "disk_image =
     \<lparr>fname = ''installer.dmg'', ftype = ''application/x-apple-diskimage'', fsize = 1000000\<rparr>"

definition photo_data :: string where
  "photo_data = ''data:image/jpeg;base64,AAAA''"


definition failed_read_trace :: "event list" where
  "failed_read_trace =
     [Drop [photo], ReaderLoad photo photo_data, Drop [scan], ReaderError]"

definition stale_response_trace :: "event list" where
  "stale_response_trace =
     [Drop [photo], ReaderLoad photo photo_data, EnhanceClick True, CancelClick, ResetClick,
      FetchSettled 1 (Response 200 ''PNG'')]"


section \<open>Verification\<close>

lemmas small_defs =
  showStatus_def showLoading_def showModal_def hideModal_def showErrorModal_def
  showMobileProcessing_def updateSliders_def displayImage_def resetImagePreview_def
  finally_block_def

lemmas eval_defs =
  handleFileInputChange_def dropArea_drop_def handleImageFile_def reader_onloadstart_def
  reader_onload_def reader_onerror_def reader_onabort_def updateImageStats_def
  updateImageStats_onload_def updateImageStats_onerror_def enhanceImage_def
  enhanceImage_resume_def enhancedStats_onload_def downloadImage_def resetAll_def
  closeErrorBtn_click_def cancelBtn_click_def retryBtn_click_def slider_input_def
  superResSelect_change_def autoEnhanceCheckbox_change_def resetEnhancedPreview_def
  createObjectURL_def revokeObjectURL_def maxSize_def maxMB_def response_ok_def
  type_label_def page_load_def small_defs Let_def

subsection \<open>What each handler does to the URLs and to the current file\<close>

lemma urls_small [simp]:
  "objectURLs (showStatus m t s) = objectURLs s"
  "enhancedImageUrl (showStatus m t s) = enhancedImageUrl s"
  "currentImageFile (showStatus m t s) = currentImageFile s"
  "objectURLs (hideModal md s) = objectURLs s"
  "enhancedImageUrl (hideModal md s) = enhancedImageUrl s"
  "currentImageFile (hideModal md s) = currentImageFile s"
  "objectURLs (finally_block s) = objectURLs s"
  "enhancedImageUrl (finally_block s) = enhancedImageUrl s"
  "currentImageFile (finally_block s) = currentImageFile s"
  "objectURLs (showErrorModal m s) = objectURLs s"
  "enhancedImageUrl (showErrorModal m s) = enhancedImageUrl s"
  "currentImageFile (showErrorModal m s) = currentImageFile s"
  by (simp_all add: small_defs Let_def split: modal.splits)

lemma urls_handleImageFile [simp]:
  "objectURLs (fst (handleImageFile file s)) = objectURLs s"
  "enhancedImageUrl (fst (handleImageFile file s)) = enhancedImageUrl s"
  by (simp_all add: handleImageFile_def split: option.splits)


lemma urls_enhanceImage [simp]:
  "objectURLs (fst (enhanceImage a s)) = objectURLs s"
  "enhancedImageUrl (fst (enhanceImage a s)) = enhancedImageUrl s"
  "currentImageFile (fst (enhanceImage a s)) = currentImageFile s"
  by (simp_all add: enhanceImage_def small_defs Let_def split: option.splits)


lemma urls_downloadImage [simp]:
  "objectURLs (fst (downloadImage ts s)) = objectURLs s"
  "enhancedImageUrl (fst (downloadImage ts s)) = enhancedImageUrl s"
  "currentImageFile (fst (downloadImage ts s)) = currentImageFile s"
  by (simp_all add: downloadImage_def Let_def split: option.splits)


lemma urls_stats [simp]:
  "objectURLs (fst (updateImageStats_onload f w h s)) = objectURLs s"
  "enhancedImageUrl (fst (updateImageStats_onload f w h s)) = enhancedImageUrl s"
  "currentImageFile (fst (updateImageStats_onload f w h s)) = currentImageFile s"
  "objectURLs (updateImageStats_onerror s) = objectURLs s"
  "enhancedImageUrl (updateImageStats_onerror s) = enhancedImageUrl s"
  "currentImageFile (updateImageStats_onerror s) = currentImageFile s"
  "objectURLs (enhancedStats_onload n w h s) = objectURLs s"
  "enhancedImageUrl (enhancedStats_onload n w h s) = enhancedImageUrl s"
  "currentImageFile (enhancedStats_onload n w h s) = currentImageFile s"
  by (simp_all add: updateImageStats_onload_def updateImageStats_onerror_def
        enhancedStats_onload_def Let_def split: option.splits)

lemma urls_controls [simp]:
  "objectURLs (slider_input sl v s) = objectURLs s"
  "enhancedImageUrl (slider_input sl v s) = enhancedImageUrl s"
  "currentImageFile (slider_input sl v s) = currentImageFile s"
  "objectURLs (superResSelect_change n s) = objectURLs s"
  "enhancedImageUrl (superResSelect_change n s) = enhancedImageUrl s"
  "currentImageFile (superResSelect_change n s) = currentImageFile s"
  "objectURLs (autoEnhanceCheckbox_change b s) = objectURLs s"
  "enhancedImageUrl (autoEnhanceCheckbox_change b s) = enhancedImageUrl s"
  "currentImageFile (autoEnhanceCheckbox_change b s) = currentImageFile s"
  by (simp_all add: slider_input_def superResSelect_change_def autoEnhanceCheckbox_change_def
        Let_def split: slider.splits)

subsection \<open>One live URL for the enhanced result\<close>














subsection \<open>Validation of an offered file\<close>

lemma match_image_iff: "match_image t \<longleftrightarrow> sublist ''image'' t"
  by (induction t) (auto simp: sublist_Cons_right)

lemma handleImageFile_wrong_type:
  "\<not> match_image (ftype f) \<Longrightarrow>
   handleImageFile (Some f) s =
     (showStatus ''Please select an image file (JPG, PNG, etc.)'' ''error'' s, [])"
  by (simp add: handleImageFile_def)

lemma handleImageFile_accepted:
  "match_image (ftype f) \<Longrightarrow> fsize f \<le> maxSize s \<Longrightarrow>
   handleImageFile (Some f) s = (s\<lparr>currentImageFile := Some f\<rparr>, [ReadAsDataURL f])"
  by (simp add: handleImageFile_def)

text \<open>
  C2: a file becomes the Selected File only if its type begins with \<^verbatim>\<open>image/\<close>. The
  code tests the type against the unanchored pattern \<^verbatim>\<open>image.*\<close>, so a type that
  merely contains \<^verbatim>\<open>image\<close> passes: a disk image of type
  \<^verbatim>\<open>application/x-apple-diskimage\<close>, dropped on the desktop page, becomes the current
  file and its read is started.
\<close>

theorem C2_disk_image_accepted:
  "\<not> prefix ''image/'' (ftype disk_image) \<and>
   fire (Drop [disk_image]) (page_load False) =
     ((page_load False)\<lparr>currentImageFile := Some disk_image\<rparr>, [ReadAsDataURL disk_image])"
  by (simp add: disk_image_def dropArea_drop_def handleImageFile_def maxSize_def page_load_def)

text \<open>
  C3, as stated: after a failed or cancelled read the Selected File is not set and the
  enhance action is not enabled. The current file is assigned before the read starts and
  the two error callbacks only write the status line: with one image loaded, a second
  file whose read fails is the current file afterwards, and the enhance button is still
  enabled.
\<close>

theorem C3_counterexample:
  "currentImageFile (fst (run failed_read_trace (page_load False))) = Some scan \<and>
   \<not> enhanceBtn_disabled (fst (run failed_read_trace (page_load False)))"
  by (simp add: failed_read_trace_def photo_def scan_def photo_data_def eval_defs)

text \<open>
  C3, amended: a failed read and a cancelled read each show an error of their own, and
  the callback changes nothing but the status line, so previews, statistics, the enhanced
  result and the enablement of the buttons are as they were before the file was offered.
  The Selected File is the file that passed validation: it was assigned before the read
  started, and it stays.
\<close>

theorem C3_read_failure:
  "reader_onerror s =
     s\<lparr>statusText := \<lparr>status_text = cross_mark @ '' Failed to load image'',
                       status_class = ''status error'', status_display = ''block''\<rparr>\<rparr> \<and>
   reader_onabort s =
     s\<lparr>statusText := \<lparr>status_text = cross_mark @ '' Image loading cancelled'',
                       status_class = ''status error'', status_display = ''block''\<rparr>\<rparr> \<and>
   status_text (statusText (reader_onerror s)) \<noteq> status_text (statusText (reader_onabort s')) \<and>
   (match_image (ftype f) \<and> fsize f \<le> maxSize s \<longrightarrow>
      reader_onerror (fst (handleImageFile (Some f) s)) =
        (reader_onerror s)\<lparr>currentImageFile := Some f\<rparr> \<and>
      reader_onabort (fst (handleImageFile (Some f) s)) =
        (reader_onabort s)\<lparr>currentImageFile := Some f\<rparr>)"
  by (simp add: reader_onerror_def reader_onabort_def showStatus_def handleImageFile_def
        cross_mark_def)

theorem C3_read_failure_witness:
  "match_image (ftype scan) \<and> fsize scan \<le> maxSize (page_load False) \<and>
   currentImageFile (reader_onerror (fst (handleImageFile (Some scan) (page_load False)))) =
     Some scan \<and>
   enhanceBtn_disabled (reader_onerror (fst (handleImageFile (Some scan) (page_load False))))"
  using C3_read_failure [of "page_load False" "page_load False" scan]
  by (simp add: scan_def maxSize_def page_load_def reader_onerror_def showStatus_def)

text \<open>
  C4, as stated: every file larger than the ceiling is rejected with an error that names
  the limit. The type is tested first, so a file that is too large and is not an image
  is rejected with the error about the type, which names no limit.
\<close>

theorem C4_counterexample:
  "maxSize (page_load True) < fsize big_text \<and>
   status_text (statusText (fst (handleImageFile (Some big_text) (page_load True)))) =
     ''Please select an image file (JPG, PNG, etc.)'' \<and>
   \<not> sublist ''5MB''
       (status_text (statusText (fst (handleImageFile (Some big_text) (page_load True)))))"
  by (simp add: big_text_def handleImageFile_def maxSize_def page_load_def showStatus_def
        sublist_Cons_right)

text \<open>
  C4, amended: every file that passes the test of the type and is larger than the ceiling
  (5 * 1024 * 1024 bytes on mobile, 10 * 1024 * 1024 otherwise) is rejected: nothing is
  asked of the browser (no read, no request), the status line shows an error that names
  the limit, 5MB or 10MB, and nothing else changes, so the file does not become the
  Selected File.
\<close>

theorem C4_oversized_rejected:
  assumes "match_image (ftype f)" and "maxSize s < fsize f"
  shows "maxSize s = (if isMobile s then 5 * 1024 * 1024 else 10 * 1024 * 1024) \<and>
         handleImageFile (Some f) s =
           (showStatus (''File too large! Please select image under ''
              @ (if isMobile s then ''5MB'' else ''10MB'') @ ''.'') ''error'' s, []) \<and>
         sublist (if isMobile s then ''5MB'' else ''10MB'')
           (status_text (statusText (fst (handleImageFile (Some f) s)))) \<and>
         status_class (statusText (fst (handleImageFile (Some f) s))) = ''status error'' \<and>
         currentImageFile (fst (handleImageFile (Some f) s)) = currentImageFile s \<and>
         fire (Drop (f # fs)) s = handleImageFile (Some f) s \<and>
         fire (FileInputChange (f # fs)) s = handleImageFile (Some f) s"
proof -
  have "sublist m (''File too large! Please select image under '' @ m @ ''.'')" for m :: string
    by (rule sublist_appendI)
  with assms show ?thesis
    by (simp add: handleImageFile_def maxSize_def maxMB_def showStatus_def dropArea_drop_def
          handleFileInputChange_def)
qed

theorem C4_oversized_rejected_witness:
  "match_image (ftype big_photo) \<and> maxSize (page_load True) < fsize big_photo \<and>
   handleImageFile (Some big_photo) (page_load True) =
     (showStatus ''File too large! Please select image under 5MB.'' ''error'' (page_load True),
      []) \<and>
   currentImageFile (fst (handleImageFile (Some big_photo) (page_load True))) = None"
  using C4_oversized_rejected [of big_photo "page_load True"]
  by (simp add: big_photo_def maxSize_def page_load_def showStatus_def)

subsection \<open>The confirmation on mobile\<close>

text \<open>
  C5: on mobile with a factor of 4 or more, \<^verbatim>\<open>enhanceImage\<close> shows the confirmation
  prompt before it asks for anything else. If the answer is no, the prompt is all that
  happened: no request, no error, the state as it was. If the answer is yes, the one
  request follows the prompt. Off mobile, or below 4, there is no prompt. Without a
  current file nothing is asked of the browser at all.
\<close>

theorem C5_confirm_before_request:
  "(currentImageFile s \<noteq> None \<and> isMobile s \<and> 4 \<le> superResSelect s \<longrightarrow>
      enhanceImage False s = (s, [Confirm (confirm_message (superResSelect s))]) \<and>
      (\<exists>r. snd (enhanceImage True s) = [Confirm (confirm_message (superResSelect s)), Fetch r])) \<and>
   (currentImageFile s \<noteq> None \<and> \<not> (isMobile s \<and> 4 \<le> superResSelect s) \<longrightarrow>
      (\<exists>r. snd (enhanceImage answer s) = [Fetch r])) \<and>
   (currentImageFile s = None \<longrightarrow> snd (enhanceImage answer s) = [])"
  by (auto simp: enhanceImage_def Let_def split: option.splits)

theorem C5_confirm_before_request_witness:
  "currentImageFile ((page_load True)\<lparr>currentImageFile := Some photo, superResSelect := 8\<rparr>)
     \<noteq> None \<and>
   isMobile ((page_load True)\<lparr>currentImageFile := Some photo, superResSelect := 8\<rparr>) \<and>
   4 \<le> superResSelect ((page_load True)\<lparr>currentImageFile := Some photo, superResSelect := 8\<rparr>) \<and>
   enhanceImage False ((page_load True)\<lparr>currentImageFile := Some photo, superResSelect := 8\<rparr>) =
     ((page_load True)\<lparr>currentImageFile := Some photo, superResSelect := 8\<rparr>,
      [Confirm (warning_sign @ '' 8x upscaling may be slow on mobile. Continue?'')]) \<and>
   currentImageFile ((page_load False)\<lparr>currentImageFile := Some photo, superResSelect := 8\<rparr>)
     \<noteq> None \<and>
   \<not> isMobile ((page_load False)\<lparr>currentImageFile := Some photo, superResSelect := 8\<rparr>) \<and>
   currentImageFile (page_load True) = None \<and>
   snd (enhanceImage False (page_load True)) = []"
  using C5_confirm_before_request
          [of "(page_load True)\<lparr>currentImageFile := Some photo, superResSelect := 8\<rparr>" False]
        C5_confirm_before_request
          [of "(page_load False)\<lparr>currentImageFile := Some photo, superResSelect := 8\<rparr>" False]
        C5_confirm_before_request [of "page_load True" False]
  by (simp add: page_load_def confirm_message_def string_of_nat.simps)

subsection \<open>A response that is not a success\<close>








end
